theory Spec2Isabelle
  imports Main
begin

section \<open>JavaScript values used by the dashboard\<close>

text \<open>
  The dashboard is TypeScript running on a JavaScript host. The parts of the host the
  verified functions touch are modelled here:
  \<^item> a string is a \<open>string\<close> whose characters are the code units U+0000 to U+00FF
    (Latin-1); on these \<open>trim\<close> strips TAB, LF, VT, FF, CR, space and the no-break
    space U+00A0, and \<open>toLowerCase\<close> lowers \<open>A\<close>..\<open>Z\<close>, U+00C0..U+00D6 and
    U+00D8..U+00DE, as \<open>String.prototype.trim\<close> and \<open>String.prototype.toLowerCase\<close>
    do;
  \<^item> numbers are the integer-valued finite numbers (\<open>mileage\<close> is read with
    \<open>parseInt\<close>), as \<open>int\<close>; a number that is \<open>NaN\<close> is written \<open>None\<close> where the
    host can produce one (an invalid \<open>Date\<close>);
  \<^item> an object used as a dictionary (\<open>Record<string, T>\<close>) is the list of its own
    properties in insertion order; it is a plain object, so reading a key it does not own
    yields the property of that name inherited from \<open>Object.prototype\<close> (a function
    or an object) when there is one, and \<open>undefined\<close> otherwise.
\<close>

datatype js_value =
  JUndefined | JNull | JBool bool | JNumber int | JNaN | JString string | JObject

text \<open>
  ToBoolean: the falsy values are undefined, null, false, 0, NaN and the empty string; an
  object or a function (\<open>JObject\<close>) is truthy.
\<close>

fun truthy :: "js_value \<Rightarrow> bool" where
  "truthy JUndefined = False"
| "truthy JNull = False"
| "truthy (JBool b) = b"
| "truthy (JNumber n) = (n \<noteq> 0)"
| "truthy JNaN = False"
| "truthy (JString s) = (s \<noteq> [])"
| "truthy JObject = True"

type_synonym 'a js_object = "(string \<times> 'a) list"

text \<open>\<open>obj[k] = v\<close>: an existing key keeps its place, a new key is appended.\<close>

fun js_set :: "string \<Rightarrow> 'a \<Rightarrow> 'a js_object \<Rightarrow> 'a js_object" where
  "js_set k v [] = [(k, v)]"
| "js_set k v (p # ps) = (if fst p = k then (k, v) # ps else p # js_set k v ps)"

text \<open>The names of the properties of \<open>Object.prototype\<close>, which every plain object inherits.\<close>

definition Object_prototype_keys :: "string list" where
  "Object_prototype_keys =
     [''constructor'', ''__defineGetter__'', ''__defineSetter__'', ''hasOwnProperty'',
      ''__lookupGetter__'', ''__lookupSetter__'', ''isPrototypeOf'',
      ''propertyIsEnumerable'', ''toString'', ''valueOf'', ''__proto__'',
      ''toLocaleString'']"

text \<open>
  \<open>obj[k]\<close> on a \<open>Record<string, any>\<close>: the own property when there is one, else
  the inherited one, else \<open>undefined\<close>.
\<close>

definition js_get :: "js_value js_object \<Rightarrow> string \<Rightarrow> js_value" where
  "js_get obj k =
     (case map_of obj k of
        Some v \<Rightarrow> v
      | None \<Rightarrow> if k \<in> set Object_prototype_keys then JObject else JUndefined)"

text \<open>\<open>Object.keys(obj)\<close>.\<close>

definition Object_keys :: "'a js_object \<Rightarrow> string list" where
  "Object_keys obj = map fst obj"

text \<open>\<open>a || b\<close> on strings and on numbers.\<close>

definition or_string :: "string \<Rightarrow> string \<Rightarrow> string" where
  "or_string a b = (if a = [] then b else a)"

definition or_number :: "int \<Rightarrow> int \<Rightarrow> int" where
  "or_number a b = (if a = 0 then b else a)"

definition isWhiteSpace :: "char \<Rightarrow> bool" where
  "isWhiteSpace c = (c = CHR '' '' \<or> c = CHR 0x09 \<or> c = CHR 0x0A \<or> c = CHR 0x0B
                     \<or> c = CHR 0x0C \<or> c = CHR 0x0D \<or> c = CHR 0xA0)"

definition trim :: "string \<Rightarrow> string" where
  "trim s = rev (dropWhile isWhiteSpace (rev (dropWhile isWhiteSpace s)))"

definition toLowerChar :: "char \<Rightarrow> char" where
  "toLowerChar c =
     (let n = (of_char c :: nat)
      in if (65 \<le> n \<and> n \<le> 90) \<or> (192 \<le> n \<and> n \<le> 214) \<or> (216 \<le> n \<and> n \<le> 222)
         then char_of (n + 32) else c)"

definition toLowerCase :: "string \<Rightarrow> string" where
  "toLowerCase s = map toLowerChar s"

text \<open>
  What the functions read from the host: \<open>Date.parse\<close> (the time value of a date string in
  milliseconds since the epoch, \<open>None\<close> for an invalid date), the clock \<open>new Date()\<close>, and
  the conversion of a string to a number that \<open>>=\<close> applies to a string operand.
\<close>

record host =
  Date_parse :: "string \<Rightarrow> int option"
  Date_now :: int
  StringToNumber :: "string \<Rightarrow> int option"

section \<open>Data model\<close>

datatype vehicle_status = Available | InUse | Maintenance | Inactive

record vehicle =
  v_id :: string
  v_name :: string
  v_status :: vehicle_status
  v_mileage :: int
  v_customFields :: "js_value js_object"
  v_documents :: "string list"
  v_lastUpdated :: string
  v_updatedBy :: string

datatype field_type = TextField | NumberField | Dropdown

record dropdown_option =
  o_value :: string
  o_color :: "string option"

record custom_field =
  f_id :: string
  f_name :: string
  f_type :: field_type
  f_options :: "dropdown_option list option"
  f_required :: bool

datatype trigger_type = DateTrigger | MileageTrigger

text \<open>\<open>triggerValue: string | number\<close>.\<close>

datatype trigger_value = TVString string | TVNumber int

datatype reminder_status = Incomplete | Complete

record reminder =
  r_id :: string
  r_vehicleId :: string
  r_description :: string
  r_triggerType :: trigger_type
  r_triggerValue :: trigger_value
  r_status :: reminder_status
  r_completedAt :: "string option"
  r_completedBy :: "string option"

text \<open>The state of \<open>FleetDashboard\<close> (its \<open>useState\<close> cells).\<close>

record dashboard =
  vehicles :: "vehicle list"
  customFields :: "custom_field list"
  reminders :: "reminder list"
  showVehicleForm :: bool
  editingVehicle :: "vehicle option"

subsection \<open>Mock data of the dashboard\<close>

definition mockVehicles :: "vehicle list" where
  "mockVehicles =
   [\<lparr>v_id = ''1'', v_name = ''Fleet Van 001'', v_status = Available, v_mileage = 45670,
      v_customFields = [(''vehicleType'', JString ''Cargo Van''),
                        (''licensePlate'', JString ''ABC-123''), (''year'', JNumber 2022)],
      v_documents = [''insurance.pdf'', ''registration.pdf''],
      v_lastUpdated = ''2024-01-15 10:30'', v_updatedBy = ''John Smith''\<rparr>,
    \<lparr>v_id = ''2'', v_name = ''Fleet Van 002'', v_status = InUse, v_mileage = 38920,
      v_customFields = [(''vehicleType'', JString ''Delivery Van''),
                        (''licensePlate'', JString ''DEF-456''), (''year'', JNumber 2021)],
      v_documents = [''insurance.pdf''],
      v_lastUpdated = ''2024-01-14 15:45'', v_updatedBy = ''Sarah Johnson''\<rparr>,
    \<lparr>v_id = ''3'', v_name = ''Fleet Truck 003'', v_status = Maintenance, v_mileage = 67340,
      v_customFields = [(''vehicleType'', JString ''Box Truck''),
                        (''licensePlate'', JString ''GHI-789''), (''year'', JNumber 2020)],
      v_documents = [''insurance.pdf'', ''maintenance_log.pdf''],
      v_lastUpdated = ''2024-01-13 09:15'', v_updatedBy = ''Mike Wilson''\<rparr>]"

definition mockReminders :: "reminder list" where
  "mockReminders =
   [\<lparr>r_id = ''1'', r_vehicleId = ''1'', r_description = ''Annual inspection due'',
      r_triggerType = DateTrigger, r_triggerValue = TVString ''2024-02-15'',
      r_status = Incomplete, r_completedAt = None, r_completedBy = None\<rparr>,
    \<lparr>r_id = ''2'', r_vehicleId = ''2'', r_description = ''Oil change required'',
      r_triggerType = MileageTrigger, r_triggerValue = TVNumber 40000,
      r_status = Incomplete, r_completedAt = None, r_completedBy = None\<rparr>,
    \<lparr>r_id = ''3'', r_vehicleId = ''3'', r_description = ''Brake inspection'',
      r_triggerType = DateTrigger, r_triggerValue = TVString ''2024-01-20'',
      r_status = Complete, r_completedAt = Some ''2024-01-18 14:30'',
      r_completedBy = Some ''Mike Wilson''\<rparr>]"

text \<open>
  The mock data lists the options of a dropdown as bare strings; each is written here as
  the option with that value and no colour.
\<close>

definition plainOption :: "string \<Rightarrow> dropdown_option" where
  "plainOption s = \<lparr>o_value = s, o_color = None\<rparr>"

definition mockFields :: "custom_field list" where
  "mockFields =
   [\<lparr>f_id = ''1'', f_name = ''Vehicle Type'', f_type = Dropdown,
      f_options = Some (map plainOption
                    [''Cargo Van'', ''Delivery Van'', ''Box Truck'', ''Pickup Truck'']),
      f_required = True\<rparr>,
    \<lparr>f_id = ''2'', f_name = ''License Plate'', f_type = TextField, f_options = None,
      f_required = True\<rparr>,
    \<lparr>f_id = ''3'', f_name = ''Year'', f_type = NumberField, f_options = None,
      f_required = False\<rparr>,
    \<lparr>f_id = ''4'', f_name = ''Fuel Type'', f_type = Dropdown,
      f_options = Some (map plainOption [''Gasoline'', ''Diesel'', ''Electric'', ''Hybrid'']),
      f_required = False\<rparr>]"

text \<open>The initial state of the dashboard.\<close>

definition mockDashboard :: dashboard where
  "mockDashboard =
     \<lparr>vehicles = mockVehicles, customFields = mockFields, reminders = mockReminders,
      showVehicleForm = False, editingVehicle = None\<rparr>"

section \<open>RemindersPanel\<close>

text \<open>
  \<open>new Date(v)\<close>: a string is parsed by the host, a number is the time value itself when
  it is within the range of time values.
\<close>

fun newDate :: "host \<Rightarrow> trigger_value \<Rightarrow> int option" where
  "newDate h (TVString s) = Date_parse h s"
| "newDate h (TVNumber n) = (if \<bar>n\<bar> \<le> 8640000000000000 then Some n else None)"

text \<open>\<open>m >= v\<close> for a number \<open>m\<close>: a string operand is converted, and NaN compares false.\<close>

fun number_ge :: "host \<Rightarrow> int \<Rightarrow> trigger_value \<Rightarrow> bool" where
  "number_ge h m (TVNumber n) = (m \<ge> n)"
| "number_ge h m (TVString s) =
     (case StringToNumber h s of None \<Rightarrow> False | Some n \<Rightarrow> m \<ge> n)"

definition handleCompleteReminder :: "string \<Rightarrow> reminder list \<Rightarrow> string \<Rightarrow> reminder list" where
  "handleCompleteReminder nowLocale rs reminderId =
     map (\<lambda>r. if r_id r = reminderId
               then r\<lparr>r_status := Complete, r_completedAt := Some nowLocale,
                      r_completedBy := Some ''Current User''\<rparr>
               else r) rs"

definition handleDeleteReminder :: "reminder list \<Rightarrow> string \<Rightarrow> reminder list" where
  "handleDeleteReminder rs reminderId = filter (\<lambda>r. r_id r \<noteq> reminderId) rs"

definition getCurrentMileage :: "vehicle list \<Rightarrow> string \<Rightarrow> int" where
  "getCurrentMileage vs vehicleId =
     (case find (\<lambda>v. v_id v = vehicleId) vs of
        None \<Rightarrow> 0
      | Some v \<Rightarrow> or_number (v_mileage v) 0)"

definition isReminderDue :: "host \<Rightarrow> vehicle list \<Rightarrow> reminder \<Rightarrow> bool" where
  "isReminderDue h vs r =
     (if r_status r = Complete then False
      else if r_triggerType r = DateTrigger then
        (case newDate h (r_triggerValue r) of
           None \<Rightarrow> False
         | Some triggerDate \<Rightarrow> triggerDate \<le> Date_now h)
      else number_ge h (getCurrentMileage vs (r_vehicleId r)) (r_triggerValue r))"

text \<open>
  The card of a reminder renders the button that calls \<open>handleCompleteReminder\<close> only
  while the reminder is incomplete.
\<close>

definition ReminderCard_showsComplete :: "reminder \<Rightarrow> bool" where
  "ReminderCard_showsComplete r = (r_status r = Incomplete)"

section \<open>FieldManager\<close>

record field_form =
  ff_name :: string
  ff_type :: field_type
  ff_options :: "dropdown_option list"
  ff_required :: bool

text \<open>
  \<open>validateForm\<close> builds \<open>newErrors\<close>, stores it with \<open>setErrors\<close> and returns whether it
  has no key. \<open>editingField\<close> is \<open>None\<close> while a field is added; then
  \<open>editingField?.id\<close> is \<open>undefined\<close> and differs from every id.
\<close>

definition FieldManager_newErrors ::
    "custom_field list \<Rightarrow> custom_field option \<Rightarrow> field_form \<Rightarrow> string js_object" where
  "FieldManager_newErrors flds editingField formData =
     (let e1 =
        (if trim (ff_name formData) = [] then js_set ''name'' ''Field name is required'' []
         else if list_ex (\<lambda>f. toLowerCase (f_name f) = toLowerCase (ff_name formData)
                                \<and> Some (f_id f) \<noteq> map_option f_id editingField) flds
         then js_set ''name'' ''Field name already exists'' []
         else [])
      in if ff_type formData = Dropdown \<and> length (ff_options formData) = 0
         then js_set ''options'' ''At least one option is required for dropdown fields'' e1
         else e1)"

definition FieldManager_validateForm ::
    "custom_field list \<Rightarrow> custom_field option \<Rightarrow> field_form \<Rightarrow> bool" where
  "FieldManager_validateForm flds editingField formData =
     (length (Object_keys (FieldManager_newErrors flds editingField formData)) = 0)"

text \<open>
  \<open>handleSubmit\<close>: \<open>Inl\<close> is the early return after a failed validation (the errors that
  were set; \<open>onUpdateFields\<close> is not called), \<open>Inr\<close> is the list passed to
  \<open>onUpdateFields\<close>. \<open>nowId\<close> is \<open>Date.now().toString()\<close>.
\<close>

definition FieldManager_handleSubmit ::
    "string \<Rightarrow> custom_field list \<Rightarrow> custom_field option \<Rightarrow> field_form
      \<Rightarrow> string js_object + custom_field list" where
  "FieldManager_handleSubmit nowId flds editingField formData =
     (if \<not> FieldManager_validateForm flds editingField formData
      then Inl (FieldManager_newErrors flds editingField formData)
      else
        let fieldData =
          \<lparr>f_id = (case editingField of None \<Rightarrow> nowId | Some e \<Rightarrow> or_string (f_id e) nowId),
           f_name = trim (ff_name formData),
           f_type = ff_type formData,
           f_options = (if ff_type formData = Dropdown then Some (ff_options formData) else None),
           f_required = ff_required formData\<rparr>
        in (case editingField of
              Some e \<Rightarrow> Inr (map (\<lambda>f. if f_id f = f_id e then fieldData else f) flds)
            | None \<Rightarrow> Inr (flds @ [fieldData])))"

definition handleDeleteField :: "custom_field list \<Rightarrow> string \<Rightarrow> custom_field list" where
  "handleDeleteField flds fieldId = filter (\<lambda>f. f_id f \<noteq> fieldId) flds"

section \<open>VehicleForm\<close>

record vehicle_form =
  fd_name :: string
  fd_status :: vehicle_status
  fd_mileage :: int
  fd_customFields :: "js_value js_object"
  fd_documents :: "string list"

text \<open>The key \<open>`custom_${field.id}`\<close> of a custom field's error.\<close>

definition customKey :: "string \<Rightarrow> string" where
  "customKey fieldId = ''custom_'' @ fieldId"

text \<open>The body of the \<open>forEach\<close> over the custom fields.\<close>

definition requiredFieldStep ::
    "vehicle_form \<Rightarrow> custom_field \<Rightarrow> string js_object \<Rightarrow> string js_object" where
  "requiredFieldStep formData field newErrors =
     (if f_required field \<and> \<not> truthy (js_get (fd_customFields formData) (f_name field))
      then js_set (customKey (f_id field)) (f_name field @ '' is required'') newErrors
      else newErrors)"

definition VehicleForm_newErrors :: "custom_field list \<Rightarrow> vehicle_form \<Rightarrow> string js_object" where
  "VehicleForm_newErrors flds formData =
     (let e1 = (if trim (fd_name formData) = []
                then js_set ''name'' ''Vehicle name is required'' [] else []);
          e2 = (if fd_mileage formData < 0
                then js_set ''mileage'' ''Mileage cannot be negative'' e1 else e1)
      in fold (requiredFieldStep formData) flds e2)"

definition VehicleForm_validateForm :: "custom_field list \<Rightarrow> vehicle_form \<Rightarrow> bool" where
  "VehicleForm_validateForm flds formData =
     (length (Object_keys (VehicleForm_newErrors flds formData)) = 0)"

text \<open>
  \<open>handleSubmit\<close>: \<open>Inr\<close> is the form data passed to \<open>onSave\<close>, \<open>Inl\<close> the errors
  that were set when validation failed (\<open>onSave\<close> is not called).
\<close>

definition VehicleForm_handleSubmit ::
    "custom_field list \<Rightarrow> vehicle_form \<Rightarrow> string js_object + vehicle_form" where
  "VehicleForm_handleSubmit flds formData =
     (if VehicleForm_validateForm flds formData then Inr formData
      else Inl (VehicleForm_newErrors flds formData))"

section \<open>FleetDashboard\<close>

definition handleAddVehicle :: "dashboard \<Rightarrow> dashboard" where
  "handleAddVehicle st = st\<lparr>editingVehicle := None, showVehicleForm := True\<rparr>"

definition handleEditVehicle :: "vehicle \<Rightarrow> dashboard \<Rightarrow> dashboard" where
  "handleEditVehicle v st = st\<lparr>editingVehicle := Some v, showVehicleForm := True\<rparr>"

text \<open>
  \<open>handleSaveVehicle\<close> receives the form data; \<open>nowId\<close> is \<open>Date.now().toString()\<close> and
  \<open>nowLocale\<close> is \<open>new Date().toLocaleString()\<close>. A status is a non-empty string, so
  \<open>vehicleData.status || 'available'\<close> is the status; an object and an array are truthy, so
  \<open>customFields || {}\<close> and \<open>documents || []\<close> are the left operands.
\<close>

definition handleSaveVehicle :: "string \<Rightarrow> string \<Rightarrow> vehicle_form \<Rightarrow> dashboard \<Rightarrow> dashboard" where
  "handleSaveVehicle nowId nowLocale vehicleData st =
     (let vs =
        (case editingVehicle st of
           Some ev \<Rightarrow>
             map (\<lambda>v. if v_id v = v_id ev
                       then v\<lparr>v_name := fd_name vehicleData,
                              v_status := fd_status vehicleData,
                              v_mileage := fd_mileage vehicleData,
                              v_customFields := fd_customFields vehicleData,
                              v_documents := fd_documents vehicleData,
                              v_lastUpdated := nowLocale,
                              v_updatedBy := ''Current User''\<rparr>
                       else v) (vehicles st)
         | None \<Rightarrow>
             vehicles st @
               [\<lparr>v_id = nowId,
                 v_name = or_string (fd_name vehicleData) [],
                 v_status = fd_status vehicleData,
                 v_mileage = or_number (fd_mileage vehicleData) 0,
                 v_customFields = fd_customFields vehicleData,
                 v_documents = fd_documents vehicleData,
                 v_lastUpdated = nowLocale,
                 v_updatedBy = ''Current User''\<rparr>])
      in st\<lparr>vehicles := vs, showVehicleForm := False, editingVehicle := None\<rparr>)"

text \<open>
  Submitting the vehicle form that the dashboard shows: the form validates against the
  dashboard's custom fields and calls \<open>handleSaveVehicle\<close> on success. The result is the
  errors the form shows and the dashboard state.
\<close>

definition submitVehicleForm ::
    "string \<Rightarrow> string \<Rightarrow> vehicle_form \<Rightarrow> dashboard \<Rightarrow> string js_object \<times> dashboard" where
  "submitVehicleForm nowId nowLocale formData st =
     (case VehicleForm_handleSubmit (customFields st) formData of
        Inl errs \<Rightarrow> (errs, st)
      | Inr vehicleData \<Rightarrow> ([], handleSaveVehicle nowId nowLocale vehicleData st))"

text \<open>\<open>onDeleteVehicle\<close> of the vehicle list.\<close>

definition onDeleteVehicle :: "string \<Rightarrow> dashboard \<Rightarrow> dashboard" where
  "onDeleteVehicle vehicleId st =
     st\<lparr>vehicles := filter (\<lambda>v. v_id v \<noteq> vehicleId) (vehicles st)\<rparr>"

text \<open>\<open>onUpdateFields\<close> of the field manager is \<open>setCustomFields\<close>.\<close>

definition setCustomFields :: "custom_field list \<Rightarrow> dashboard \<Rightarrow> dashboard" where
  "setCustomFields fs st = st\<lparr>customFields := fs\<rparr>"

text \<open>
  The field manager inside the dashboard: its \<open>fields\<close> are the dashboard's custom fields.
  Submitting its form gives the errors it shows and the dashboard state; deleting a field
  has no failing path.
\<close>

definition submitFieldForm ::
    "string \<Rightarrow> custom_field option \<Rightarrow> field_form \<Rightarrow> dashboard \<Rightarrow> string js_object \<times> dashboard" where
  "submitFieldForm nowId editingField formData st =
     (case FieldManager_handleSubmit nowId (customFields st) editingField formData of
        Inl errs \<Rightarrow> (errs, st)
      | Inr fs \<Rightarrow> ([], setCustomFields fs st))"

definition removeField :: "string \<Rightarrow> dashboard \<Rightarrow> dashboard" where
  "removeField fieldId st = setCustomFields (handleDeleteField (customFields st) fieldId) st"

text \<open>\<open>onCancel\<close> of the vehicle form.\<close>

definition onCancel :: "dashboard \<Rightarrow> dashboard" where
  "onCancel st = st\<lparr>showVehicleForm := False, editingVehicle := None\<rparr>"

text \<open>\<open>onUpdateReminders\<close> of the reminders panel is \<open>setReminders\<close>.\<close>

definition setReminders :: "reminder list \<Rightarrow> dashboard \<Rightarrow> dashboard" where
  "setReminders rs st = st\<lparr>reminders := rs\<rparr>"

definition completeReminder :: "string \<Rightarrow> string \<Rightarrow> dashboard \<Rightarrow> dashboard" where
  "completeReminder nowLocale reminderId st =
     setReminders (handleCompleteReminder nowLocale (reminders st) reminderId) st"

text \<open>
  The states of the dashboard: it starts from the mock data, and each event of its views
  leads to the next state. The vehicle form is shown, and can be submitted or cancelled,
  only while \<open>showVehicleForm\<close> holds; a vehicle or a field is edited or deleted from
  its card in the list; the reminders panel replaces the reminders through
  \<open>onUpdateReminders\<close> (any list, which covers each of its handlers).
\<close>

inductive reachable :: "dashboard \<Rightarrow> bool" where
  initial: "reachable mockDashboard"
| addVehicle: "reachable st \<Longrightarrow> reachable (handleAddVehicle st)"
| editVehicle: "reachable st \<Longrightarrow> v \<in> set (vehicles st) \<Longrightarrow> reachable (handleEditVehicle v st)"
| cancelVehicle: "reachable st \<Longrightarrow> showVehicleForm st \<Longrightarrow> reachable (onCancel st)"
| saveVehicle: "reachable st \<Longrightarrow> showVehicleForm st \<Longrightarrow>
     reachable (snd (submitVehicleForm nowId nowLocale formData st))"
| deleteVehicle: "reachable st \<Longrightarrow> v \<in> set (vehicles st) \<Longrightarrow>
     reachable (onDeleteVehicle (v_id v) st)"
| saveField: "reachable st \<Longrightarrow>
     reachable (snd (submitFieldForm nowId editingField fieldForm st))"
| deleteField: "reachable st \<Longrightarrow> f \<in> set (customFields st) \<Longrightarrow>
     reachable (removeField (f_id f) st)"
| updateReminders: "reachable st \<Longrightarrow> reachable (setReminders rs st)"

section \<open>Notions of the specification and example data\<close>

text \<open>
  The specification compares a date reminder with today by calendar day. The calendar day
  of a time value is its UTC day number; \<open>calendarDayDue\<close> is the comparison in the
  specification's words (the trigger's day is not after today's), to be compared with
  what \<open>isReminderDue\<close> computes.
\<close>

definition msPerDay :: int where
  "msPerDay = 86400000"

definition utcDay :: "int \<Rightarrow> int" where
  "utcDay t = t div msPerDay"

definition calendarDayDue :: "int \<Rightarrow> int \<Rightarrow> bool" where
  "calendarDayDue triggerDate today = (utcDay triggerDate \<le> utcDay today)"

text \<open>
  A host for the examples: it parses the two dates of the mock reminders (date-only
  strings denote midnight UTC) and one date with a time of day; its clock reads \<open>now\<close>.
\<close>

definition exampleHost :: "int \<Rightarrow> host" where
  "exampleHost now =
     \<lparr>Date_parse = (\<lambda>s. if s = ''2024-02-15'' then Some 1707955200000
                         else if s = ''2024-01-20'' then Some 1705708800000
                         else if s = ''2024-02-15T15:00:00Z'' then Some 1708009200000
                         else None),
      Date_now = now,
      StringToNumber = (\<lambda>s. None)\<rparr>"

definition timedReminder :: reminder where
  "timedReminder =
     \<lparr>r_id = ''4'', r_vehicleId = ''1'', r_description = ''Tyre fitting appointment'',
      r_triggerType = DateTrigger, r_triggerValue = TVString ''2024-02-15T15:00:00Z'',
      r_status = Incomplete, r_completedAt = None, r_completedBy = None\<rparr>"

text \<open>
  The errors of the specification's taxonomy, as the entries of the error object that the
  field manager sets.
\<close>

definition DuplicateName :: "string js_object \<Rightarrow> bool" where
  "DuplicateName errs = (map_of errs ''name'' = Some ''Field name already exists'')"

definition EmptyOptions :: "string js_object \<Rightarrow> bool" where
  "EmptyOptions errs =
     (map_of errs ''options'' = Some ''At least one option is required for dropdown fields'')"

text \<open>The invariants of the specification's data model.\<close>

definition uniqueFieldNames :: "custom_field list \<Rightarrow> bool" where
  "uniqueFieldNames flds = distinct (map (\<lambda>f. toLowerCase (f_name f)) flds)"

definition dropdownHasOption :: "custom_field \<Rightarrow> bool" where
  "dropdownHasOption f =
     (if f_type f = Dropdown
      then (case f_options f of None \<Rightarrow> False | Some os \<Rightarrow> 1 \<le> length os)
      else True)"

definition dropdownsHaveOptions :: "custom_field list \<Rightarrow> bool" where
  "dropdownsHaveOptions flds = list_all dropdownHasOption flds"

definition mileagesNonNegative :: "vehicle list \<Rightarrow> bool" where
  "mileagesNonNegative vs = list_all (\<lambda>v. 0 \<le> v_mileage v) vs"

text \<open>
  Example form data: the scenario of the specification (a schema with the optional field
  Year only; a vehicle edit with name Van A, mileage 100 and no custom-field value), and
  the same edit with the two required fields of the mock schema filled in.
\<close>

definition yearOnly :: "custom_field list" where
  "yearOnly = [\<lparr>f_id = ''3'', f_name = ''Year'', f_type = NumberField, f_options = None,
                f_required = False\<rparr>]"

definition vanA :: vehicle_form where
  "vanA = \<lparr>fd_name = ''Van A'', fd_status = Available, fd_mileage = 100,
           fd_customFields = [], fd_documents = []\<rparr>"

definition vanAFilled :: vehicle_form where
  "vanAFilled = vanA\<lparr>fd_customFields := [(''Vehicle Type'', JString ''Cargo Van''),
                                          (''License Plate'', JString ''ABC-123'')]\<rparr>"

text \<open>
  Example field forms: a dropdown without options, and the name of the mock field License
  Plate typed in lower case after a space.
\<close>

definition emptyDropdown :: field_form where
  "emptyDropdown =
     \<lparr>ff_name = ''Colour'', ff_type = Dropdown, ff_options = [], ff_required = False\<rparr>"

definition paddedLicensePlate :: field_form where
  "paddedLicensePlate =
     \<lparr>ff_name = '' license plate'', ff_type = TextField, ff_options = [], ff_required = False\<rparr>"

text \<open>
  A required text field named like a property that every plain object inherits, and the
  dashboard after adding it to the mock schema through the field form.
\<close>

definition constructorField :: field_form where
  "constructorField =
     \<lparr>ff_name = ''constructor'', ff_type = TextField, ff_options = [], ff_required = True\<rparr>"

definition dashboardWithConstructor :: dashboard where
  "dashboardWithConstructor =
     snd (submitFieldForm ''1700000000000'' None constructorField mockDashboard)"

section \<open>Verification\<close>

subsection \<open>Strings and inherited properties\<close>

text \<open>
  The no-break space is white space, accented capitals are lowered, and a plain object
  without own properties still has a truthy \<open>toString\<close> but no \<open>Year\<close>.
\<close>

lemma trim_no_break_space: "trim [CHR 0xA0, CHR ''a'', CHR 0xA0] = ''a''"
  by (simp add: trim_def isWhiteSpace_def)

lemma toLowerCase_latin1: "toLowerCase [CHR 0xC9, CHR 0xD7, CHR ''Z''] = [CHR 0xE9, CHR 0xD7, CHR ''z'']"
  by code_simp

lemma js_get_empty_object:
  "truthy (js_get [] ''toString'')" "js_get [] ''Year'' = JUndefined"
  by (simp_all add: js_get_def Object_prototype_keys_def)

subsection \<open>Due state of a reminder\<close>

lemma midnight_le_iff:
  assumes "t mod msPerDay = 0"
  shows "t \<le> now \<longleftrightarrow> utcDay t \<le> utcDay now"
proof -
  have pos: "0 < msPerDay" by (simp add: msPerDay_def)
  from assms have t: "t = utcDay t * msPerDay"
    unfolding utcDay_def using div_mult_mod_eq [of t msPerDay] by simp
  show ?thesis
  proof
    assume "t \<le> now"
    then show "utcDay t \<le> utcDay now"
      unfolding utcDay_def using pos by (simp add: zdiv_mono1)
  next
    assume le: "utcDay t \<le> utcDay now"
    have "t = utcDay t * msPerDay" by (rule t)
    also have "\<dots> \<le> utcDay now * msPerDay"
      using le pos by (simp add: mult_right_mono)
    also have "\<dots> \<le> now"
      unfolding utcDay_def
      using pos div_mult_mod_eq [of now msPerDay] pos_mod_sign [of msPerDay now] by linarith
    finally show "t \<le> now" .
  qed
qed

text \<open>
  C1, as the code has it: an incomplete date reminder is due exactly when the time value
  its \<open>triggerValue\<close> parses to is not after the current time value, and never when it
  does not parse. When the \<open>triggerValue\<close> denotes midnight UTC of a day (a date-only
  string), this is exactly the calendar-day comparison of that day with today's UTC day,
  whatever the time of day.
\<close>

theorem isReminderDue_date:
  assumes "r_status r = Incomplete" and "r_triggerType r = DateTrigger"
  shows "(isReminderDue h vs r \<longleftrightarrow>
            (case newDate h (r_triggerValue r) of
               None \<Rightarrow> False
             | Some t \<Rightarrow> t \<le> Date_now h))
       \<and> (\<forall>t. newDate h (r_triggerValue r) = Some t \<and> t mod msPerDay = 0 \<longrightarrow>
            (isReminderDue h vs r \<longleftrightarrow> calendarDayDue t (Date_now h)))"
proof (intro conjI allI impI)
  show inst: "isReminderDue h vs r \<longleftrightarrow>
      (case newDate h (r_triggerValue r) of None \<Rightarrow> False | Some t \<Rightarrow> t \<le> Date_now h)"
    using assms by (simp add: isReminderDue_def)
  fix t
  assume "newDate h (r_triggerValue r) = Some t \<and> t mod msPerDay = 0"
  then show "isReminderDue h vs r \<longleftrightarrow> calendarDayDue t (Date_now h)"
    using inst midnight_le_iff [of t "Date_now h"] by (simp add: calendarDayDue_def)
qed

text \<open>
  The first mock reminder (2024-02-15) one millisecond after midnight UTC of its day.
\<close>

theorem isReminderDue_date_witness:
  "r_status (mockReminders ! 0) = Incomplete
   \<and> r_triggerType (mockReminders ! 0) = DateTrigger
   \<and> newDate (exampleHost 1707955200001) (r_triggerValue (mockReminders ! 0)) = Some 1707955200000
   \<and> (1707955200000::int) mod msPerDay = 0
   \<and> isReminderDue (exampleHost 1707955200001) mockVehicles (mockReminders ! 0)
   \<and> calendarDayDue 1707955200000 (Date_now (exampleHost 1707955200001))"
  using isReminderDue_date [of "mockReminders ! 0" "exampleHost 1707955200001" mockVehicles]
  by (simp add: mockReminders_def exampleHost_def msPerDay_def calendarDayDue_def utcDay_def)

text \<open>
  C1 as stated fails: a reminder for 2024-02-15 15:00 UTC is not due at 10:00 UTC of that
  day, although the calendar-day comparison holds, and it is due at 16:00 UTC of the same
  day: the result depends on the time of day.
\<close>

theorem isReminderDue_time_of_day_counterexample:
  "r_status timedReminder = Incomplete
   \<and> r_triggerType timedReminder = DateTrigger
   \<and> newDate (exampleHost 1707991200000) (r_triggerValue timedReminder) = Some 1708009200000
   \<and> calendarDayDue 1708009200000 (Date_now (exampleHost 1707991200000))
   \<and> \<not> isReminderDue (exampleHost 1707991200000) mockVehicles timedReminder
   \<and> utcDay 1707991200000 = utcDay 1708012800000
   \<and> isReminderDue (exampleHost 1708012800000) mockVehicles timedReminder"
  by (simp add: timedReminder_def exampleHost_def isReminderDue_def calendarDayDue_def
      utcDay_def msPerDay_def)

text \<open>
  C2: an incomplete mileage reminder is due exactly when the mileage of the vehicle it
  refers to (the first vehicle with that id) is at least the trigger value; when no
  vehicle has that id the mileage counts as 0, so the reminder is due only for a trigger
  value of at most 0.
\<close>

theorem isReminderDue_mileage:
  assumes "r_status r = Incomplete" and "r_triggerType r = MileageTrigger"
    and "r_triggerValue r = TVNumber n"
  shows "(isReminderDue h vs r \<longleftrightarrow>
            (case find (\<lambda>v. v_id v = r_vehicleId r) vs of
               None \<Rightarrow> n \<le> 0
             | Some v \<Rightarrow> v_mileage v \<ge> n))
       \<and> ((\<forall>v \<in> set vs. v_id v \<noteq> r_vehicleId r) \<longrightarrow> (isReminderDue h vs r \<longleftrightarrow> n \<le> 0))"
proof -
  have a: "isReminderDue h vs r \<longleftrightarrow>
            (case find (\<lambda>v. v_id v = r_vehicleId r) vs of
               None \<Rightarrow> n \<le> 0
             | Some v \<Rightarrow> v_mileage v \<ge> n)"
    using assms
    by (simp add: isReminderDue_def getCurrentMileage_def or_number_def split: option.splits)
  have b: "find (\<lambda>v. v_id v = r_vehicleId r) vs = None"
    if "\<forall>v \<in> set vs. v_id v \<noteq> r_vehicleId r"
    using that by (simp add: find_None_iff)
  show ?thesis using a b by auto
qed

text \<open>
  The scenario of the specification: the oil-change reminder (40000) is not due at the
  mock mileage 38920, due at 40000, and not due when the vehicle is missing.
\<close>

theorem isReminderDue_mileage_witness:
  "r_status (mockReminders ! 1) = Incomplete
   \<and> r_triggerType (mockReminders ! 1) = MileageTrigger
   \<and> r_triggerValue (mockReminders ! 1) = TVNumber 40000
   \<and> \<not> isReminderDue (exampleHost 0) mockVehicles (mockReminders ! 1)
   \<and> isReminderDue (exampleHost 0) [(mockVehicles ! 1)\<lparr>v_mileage := 40000\<rparr>] (mockReminders ! 1)
   \<and> \<not> isReminderDue (exampleHost 0) [] (mockReminders ! 1)"
  using isReminderDue_mileage [of "mockReminders ! 1" 40000 "exampleHost 0" mockVehicles]
    isReminderDue_mileage [of "mockReminders ! 1" 40000 "exampleHost 0"
      "[(mockVehicles ! 1)\<lparr>v_mileage := 40000\<rparr>]"]
    isReminderDue_mileage [of "mockReminders ! 1" 40000 "exampleHost 0" "[]"]
  by (simp add: mockReminders_def mockVehicles_def)

text \<open>
  C3: a reminder whose status is complete is not due, whatever its trigger, the clock and
  the vehicles.
\<close>

theorem isReminderDue_complete:
  "r_status r = Complete \<Longrightarrow> \<not> isReminderDue h vs r"
  by (simp add: isReminderDue_def)

text \<open>The completed mock reminder (2024-01-20), weeks after its date.\<close>

theorem isReminderDue_complete_witness:
  "r_status (mockReminders ! 2) = Complete
   \<and> \<not> isReminderDue (exampleHost 1708012800000) mockVehicles (mockReminders ! 2)"
  using isReminderDue_complete [of "mockReminders ! 2" "exampleHost 1708012800000" mockVehicles]
  by (simp add: mockReminders_def)

subsection \<open>Completing a reminder\<close>

text \<open>
  C8 as stated fails: completing the mock reminder that is already complete replaces its
  \<open>completedAt\<close> and \<open>completedBy\<close>.
\<close>

theorem handleCompleteReminder_recomplete_counterexample:
  "r_id (mockReminders ! 2) = ''3''
   \<and> r_status (mockReminders ! 2) = Complete
   \<and> r_completedAt (mockReminders ! 2) = Some ''2024-01-18 14:30''
   \<and> r_completedAt (handleCompleteReminder ''2/1/2024, 9:00:00 AM'' mockReminders ''3'' ! 2)
       = Some ''2/1/2024, 9:00:00 AM''
   \<and> r_completedAt (handleCompleteReminder ''2/1/2024, 9:00:00 AM'' mockReminders ''3'' ! 2)
       \<noteq> r_completedAt (mockReminders ! 2)
   \<and> r_completedBy (handleCompleteReminder ''2/1/2024, 9:00:00 AM'' mockReminders ''3'' ! 2)
       \<noteq> r_completedBy (mockReminders ! 2)"
  by (simp add: mockReminders_def handleCompleteReminder_def)

text \<open>
  C8, as the code has it: completing is idempotent for one reading of the clock (doing it
  twice with the same time stamp is doing it once); every reminder with the given id,
  complete or not, gets status complete, the current time stamp as \<open>completedAt\<close> and
  the current user as \<open>completedBy\<close>, and every other reminder is left as it is.
\<close>

theorem handleCompleteReminder_overwrites:
  "handleCompleteReminder t (handleCompleteReminder t rs i) i = handleCompleteReminder t rs i
   \<and> length (handleCompleteReminder t rs i) = length rs
   \<and> (\<forall>k < length rs.
        (r_id (rs ! k) = i \<longrightarrow>
           handleCompleteReminder t rs i ! k =
             (rs ! k)\<lparr>r_status := Complete, r_completedAt := Some t,
                       r_completedBy := Some ''Current User''\<rparr>)
        \<and> (r_id (rs ! k) \<noteq> i \<longrightarrow> handleCompleteReminder t rs i ! k = rs ! k))"
proof (intro conjI)
  show "handleCompleteReminder t (handleCompleteReminder t rs i) i = handleCompleteReminder t rs i"
    by (induction rs) (simp_all add: handleCompleteReminder_def)
  show "length (handleCompleteReminder t rs i) = length rs"
    by (simp add: handleCompleteReminder_def)
  show "\<forall>k < length rs.
        (r_id (rs ! k) = i \<longrightarrow>
           handleCompleteReminder t rs i ! k =
             (rs ! k)\<lparr>r_status := Complete, r_completedAt := Some t,
                       r_completedBy := Some ''Current User''\<rparr>)
        \<and> (r_id (rs ! k) \<noteq> i \<longrightarrow> handleCompleteReminder t rs i ! k = rs ! k)"
    by (simp add: handleCompleteReminder_def)
qed

theorem handleCompleteReminder_overwrites_witness:
  "handleCompleteReminder ''2/1/2024, 9:00:00 AM''
      (handleCompleteReminder ''2/1/2024, 9:00:00 AM'' mockReminders ''3'') ''3''
     = handleCompleteReminder ''2/1/2024, 9:00:00 AM'' mockReminders ''3''
   \<and> r_id (mockReminders ! 2) = ''3''
   \<and> r_completedAt (handleCompleteReminder ''2/1/2024, 9:00:00 AM'' mockReminders ''3'' ! 2)
       = Some ''2/1/2024, 9:00:00 AM''
   \<and> r_id (mockReminders ! 0) \<noteq> ''3''
   \<and> handleCompleteReminder ''2/1/2024, 9:00:00 AM'' mockReminders ''3'' ! 0 = mockReminders ! 0"
  using handleCompleteReminder_overwrites [of "''2/1/2024, 9:00:00 AM''" mockReminders "''3''"]
  by (simp add: mockReminders_def)

text \<open>
  The view offers the operation for the two incomplete mock reminders and not for the
  completed one; the handler itself does not look at the status.
\<close>

lemma ReminderCard_showsComplete_mock:
  "map ReminderCard_showsComplete mockReminders = [True, True, False]"
  by (simp add: ReminderCard_showsComplete_def mockReminders_def)

subsection \<open>Deleting a vehicle, removing a field\<close>

lemma find_filter_same:
  "find (\<lambda>v. v_id v = i) (filter (\<lambda>v. v_id v \<noteq> i) vs) = None"
  by (simp add: find_None_iff)

lemma find_filter_other:
  "j \<noteq> i \<Longrightarrow>
   find (\<lambda>v. v_id v = j) (filter (\<lambda>v. v_id v \<noteq> i) vs) = find (\<lambda>v. v_id v = j) vs"
  by (induction vs) auto

text \<open>
  C10: deleting a vehicle keeps exactly the vehicles with another id and leaves the
  reminders (and the custom fields) as they are, also the reminders that refer to the
  deleted vehicle; afterwards the current mileage of the deleted id is 0, and that of
  every other id is what it was.
\<close>

theorem onDeleteVehicle_frame:
  "vehicles (onDeleteVehicle i st) = filter (\<lambda>v. v_id v \<noteq> i) (vehicles st)
   \<and> reminders (onDeleteVehicle i st) = reminders st
   \<and> customFields (onDeleteVehicle i st) = customFields st
   \<and> getCurrentMileage (vehicles (onDeleteVehicle i st)) i = 0
   \<and> (\<forall>j. j \<noteq> i \<longrightarrow>
         getCurrentMileage (vehicles (onDeleteVehicle i st)) j = getCurrentMileage (vehicles st) j)"
  by (simp add: onDeleteVehicle_def getCurrentMileage_def find_filter_same find_filter_other)

text \<open>Deleting vehicle 2 of the mock data, to which the oil-change reminder refers.\<close>

theorem onDeleteVehicle_frame_witness:
  "map v_id (vehicles (onDeleteVehicle ''2'' mockDashboard)) = [''1'', ''3'']
   \<and> reminders (onDeleteVehicle ''2'' mockDashboard) = mockReminders
   \<and> r_vehicleId (reminders (onDeleteVehicle ''2'' mockDashboard) ! 1) = ''2''
   \<and> getCurrentMileage (vehicles (onDeleteVehicle ''2'' mockDashboard)) ''2'' = 0
   \<and> getCurrentMileage (vehicles (onDeleteVehicle ''2'' mockDashboard)) ''3'' = 67340"
  using onDeleteVehicle_frame [of "''2''" mockDashboard]
  by (simp add: mockDashboard_def mockVehicles_def mockReminders_def getCurrentMileage_def
      or_number_def)

text \<open>
  C9: removing a field has no failing path; the schema becomes the fields with another
  id, in their order, and the vehicles, with the custom-field values they store, and the
  reminders are left as they are.
\<close>

theorem removeField_frame:
  "customFields (removeField i st) = filter (\<lambda>f. f_id f \<noteq> i) (customFields st)
   \<and> (\<forall>f \<in> set (customFields (removeField i st)). f_id f \<noteq> i)
   \<and> vehicles (removeField i st) = vehicles st
   \<and> map v_customFields (vehicles (removeField i st)) = map v_customFields (vehicles st)
   \<and> reminders (removeField i st) = reminders st"
  by (simp add: removeField_def setCustomFields_def handleDeleteField_def)

text \<open>
  Removing the field Year from the mock schema while a vehicle stores a value under that
  name: the value is still there.
\<close>

theorem removeField_frame_witness:
  "map f_name
     (customFields (removeField ''3''
        (mockDashboard\<lparr>vehicles := [(mockVehicles ! 0)\<lparr>v_customFields := [(''Year'', JNumber 2022)]\<rparr>]\<rparr>)))
     = [''Vehicle Type'', ''License Plate'', ''Fuel Type'']
   \<and> js_get (v_customFields (vehicles (removeField ''3''
        (mockDashboard\<lparr>vehicles := [(mockVehicles ! 0)\<lparr>v_customFields := [(''Year'', JNumber 2022)]\<rparr>]\<rparr>)) ! 0))
        ''Year'' = JNumber 2022"
  using removeField_frame [of "''3''"
      "mockDashboard\<lparr>vehicles := [(mockVehicles ! 0)\<lparr>v_customFields := [(''Year'', JNumber 2022)]\<rparr>]\<rparr>"]
  by (simp add: mockDashboard_def mockFields_def mockVehicles_def js_get_def
      Object_prototype_keys_def)

subsection \<open>Writing a property\<close>

lemma js_set_not_Nil: "js_set k v ps \<noteq> []"
  by (cases ps) auto

lemma map_of_js_set: "map_of (js_set k v ps) = (map_of ps)(k \<mapsto> v)"
  by (induction ps) (auto simp: fun_eq_iff)

subsection \<open>Validation of the vehicle form\<close>

lemma customKey_inject [simp]: "customKey a = customKey b \<longleftrightarrow> a = b"
  by (simp add: customKey_def)

lemma customKey_not_base [simp]:
  "customKey a \<noteq> ''name''" "customKey a \<noteq> ''mileage''"
  by (simp_all add: customKey_def)

lemma fold_required_Nil_iff:
  "fold (requiredFieldStep fd) flds e = [] \<longleftrightarrow>
     e = [] \<and> (\<forall>f \<in> set flds. f_required f \<longrightarrow> truthy (js_get (fd_customFields fd) (f_name f)))"
  by (induction flds arbitrary: e) (auto simp: requiredFieldStep_def js_set_not_Nil)

lemma fold_required_keeps:
  "map_of e k \<noteq> None \<Longrightarrow> map_of (fold (requiredFieldStep fd) flds e) k \<noteq> None"
  by (induction flds arbitrary: e) (auto simp: requiredFieldStep_def map_of_js_set)

lemma fold_required_sets:
  "f \<in> set flds \<Longrightarrow> f_required f \<Longrightarrow> \<not> truthy (js_get (fd_customFields fd) (f_name f)) \<Longrightarrow>
   map_of (fold (requiredFieldStep fd) flds e) (customKey (f_id f)) \<noteq> None"
proof (induction flds arbitrary: e)
  case Nil
  then show ?case by simp
next
  case (Cons g gs)
  show ?case
  proof (cases "f = g")
    case True
    with Cons.prems have "map_of (requiredFieldStep fd g e) (customKey (f_id f)) \<noteq> None"
      by (simp add: requiredFieldStep_def map_of_js_set)
    then show ?thesis by (simp add: fold_required_keeps)
  next
    case False
    with Cons.prems have "f \<in> set gs" by simp
    with Cons.IH Cons.prems show ?thesis by simp
  qed
qed

lemma fold_required_other_key:
  "(\<forall>f \<in> set flds. customKey (f_id f) \<noteq> k) \<Longrightarrow>
   map_of (fold (requiredFieldStep fd) flds e) k = map_of e k"
  by (induction flds arbitrary: e) (auto simp: requiredFieldStep_def map_of_js_set)

lemma fold_required_origin:
  "map_of (fold (requiredFieldStep fd) flds e) (customKey k) = Some m \<Longrightarrow>
   map_of e (customKey k) = Some m
   \<or> (\<exists>f \<in> set flds. f_id f = k \<and> f_required f
         \<and> \<not> truthy (js_get (fd_customFields fd) (f_name f)) \<and> m = f_name f @ '' is required'')"
proof (induction flds arbitrary: e)
  case Nil
  then show ?case by simp
next
  case (Cons g gs)
  from Cons.prems have "map_of (fold (requiredFieldStep fd) gs (requiredFieldStep fd g e)) (customKey k) = Some m"
    by simp
  from Cons.IH [OF this] show ?case
    by (auto simp: requiredFieldStep_def map_of_js_set split: if_splits)
qed

lemma fold_required_filter:
  "fold (requiredFieldStep fd) (filter f_required flds) e = fold (requiredFieldStep fd) flds e"
  by (induction flds arbitrary: e) (auto simp: requiredFieldStep_def)

lemma VehicleForm_validateForm_iff:
  "VehicleForm_validateForm flds fd \<longleftrightarrow>
     trim (fd_name fd) \<noteq> [] \<and> 0 \<le> fd_mileage fd
     \<and> (\<forall>f \<in> set flds. f_required f \<longrightarrow> truthy (js_get (fd_customFields fd) (f_name f)))"
  by (auto simp: VehicleForm_validateForm_def VehicleForm_newErrors_def Object_keys_def Let_def
      fold_required_Nil_iff js_set_not_Nil)

lemma VehicleForm_mileage_error:
  "fd_mileage fd < 0 \<Longrightarrow>
   map_of (VehicleForm_newErrors flds fd) ''mileage'' = Some ''Mileage cannot be negative''"
  by (simp add: VehicleForm_newErrors_def Let_def fold_required_other_key map_of_js_set)

text \<open>
  What the vehicle form does, in terms of the value it reads under a field's name (the
  own entry of the edit or, when there is none, the inherited property of that name):
  every custom field that is required and for which this value is falsy gets an error
  under the key of its id, and validation fails; every error under such a key comes from a
  required field with that id and a falsy value read, and says that the field is required;
  fields that are not required do not contribute (validating against the required fields
  alone gives the same errors); validation succeeds exactly when the name is not blank,
  the mileage is not negative and every required field has a truthy value read.
\<close>

lemma VehicleForm_errors_of_read_values:
  "(\<forall>f \<in> set flds. f_required f \<and> \<not> truthy (js_get (fd_customFields fd) (f_name f)) \<longrightarrow>
       map_of (VehicleForm_newErrors flds fd) (customKey (f_id f)) \<noteq> None
       \<and> \<not> VehicleForm_validateForm flds fd)
   \<and> (\<forall>k m. map_of (VehicleForm_newErrors flds fd) (customKey k) = Some m \<longrightarrow>
         (\<exists>f \<in> set flds. f_id f = k \<and> f_required f
            \<and> \<not> truthy (js_get (fd_customFields fd) (f_name f)) \<and> m = f_name f @ '' is required''))
   \<and> VehicleForm_newErrors (filter f_required flds) fd = VehicleForm_newErrors flds fd
   \<and> (VehicleForm_validateForm flds fd \<longleftrightarrow>
        trim (fd_name fd) \<noteq> [] \<and> 0 \<le> fd_mileage fd
        \<and> (\<forall>f \<in> set flds. f_required f \<longrightarrow> truthy (js_get (fd_customFields fd) (f_name f))))"
proof (intro conjI ballI impI allI)
  fix f
  assume f: "f \<in> set flds"
    and bad: "f_required f \<and> \<not> truthy (js_get (fd_customFields fd) (f_name f))"
  then show "map_of (VehicleForm_newErrors flds fd) (customKey (f_id f)) \<noteq> None"
    by (simp add: VehicleForm_newErrors_def Let_def fold_required_sets)
  from f bad show "\<not> VehicleForm_validateForm flds fd"
    by (auto simp: VehicleForm_validateForm_iff)
next
  fix k m
  assume "map_of (VehicleForm_newErrors flds fd) (customKey k) = Some m"
  then have "map_of (fold (requiredFieldStep fd) flds
      (if fd_mileage fd < 0
       then js_set ''mileage'' ''Mileage cannot be negative''
              (if trim (fd_name fd) = [] then js_set ''name'' ''Vehicle name is required'' [] else [])
       else (if trim (fd_name fd) = [] then js_set ''name'' ''Vehicle name is required'' [] else [])))
      (customKey k) = Some m"
    by (simp add: VehicleForm_newErrors_def Let_def)
  from fold_required_origin [OF this]
  show "\<exists>f \<in> set flds. f_id f = k \<and> f_required f
            \<and> \<not> truthy (js_get (fd_customFields fd) (f_name f)) \<and> m = f_name f @ '' is required''"
    by (auto simp: map_of_js_set split: if_splits)
next
  show "VehicleForm_newErrors (filter f_required flds) fd = VehicleForm_newErrors flds fd"
    by (simp add: VehicleForm_newErrors_def Let_def fold_required_filter)
next
  show "VehicleForm_validateForm flds fd \<longleftrightarrow>
        trim (fd_name fd) \<noteq> [] \<and> 0 \<le> fd_mileage fd
        \<and> (\<forall>f \<in> set flds. f_required f \<longrightarrow> truthy (js_get (fd_customFields fd) (f_name f)))"
    by (rule VehicleForm_validateForm_iff)
qed


text \<open>
  The scenario of the specification validates; against the mock schema the same edit gets
  the error of the required field License Plate (id 2), and validates once the required
  fields are filled in.
\<close>

lemma VehicleForm_scenario_validates:
  "VehicleForm_validateForm yearOnly vanA
   \<and> mockFields ! 1 \<in> set mockFields
   \<and> f_required (mockFields ! 1)
   \<and> \<not> truthy (js_get (fd_customFields vanA) (f_name (mockFields ! 1)))
   \<and> map_of (VehicleForm_newErrors mockFields vanA) (customKey ''2'') = Some ''License Plate is required''
   \<and> \<not> VehicleForm_validateForm mockFields vanA
   \<and> VehicleForm_validateForm mockFields
        (vanA\<lparr>fd_customFields := [(''Vehicle Type'', JString ''Cargo Van''),
                                    (''License Plate'', JString ''ABC-123'')]\<rparr>)"
  using VehicleForm_errors_of_read_values [of yearOnly vanA]
    VehicleForm_errors_of_read_values [of mockFields vanA]
    VehicleForm_errors_of_read_values [of mockFields
      "vanA\<lparr>fd_customFields := [(''Vehicle Type'', JString ''Cargo Van''),
                                    (''License Plate'', JString ''ABC-123'')]\<rparr>"]
  by (simp add: yearOnly_def vanA_def mockFields_def js_get_def Object_prototype_keys_def
      trim_def isWhiteSpace_def VehicleForm_newErrors_def requiredFieldStep_def customKey_def)

text \<open>
  C7 fails on the code: \<open>validateForm\<close> reads the value of a custom field with
  \<open>formData.customFields[field.name]\<close>, which on a plain object also finds the
  properties inherited from \<open>Object.prototype\<close>. The field form accepts a required
  field named constructor into the mock schema; a vehicle edit that has no value for it
  then reads the inherited, truthy \<open>constructor\<close>, gets no error under the field's
  key, validates, and is saved.
\<close>

theorem submitVehicleForm_inherited_name:
  "fst (submitFieldForm ''1700000000000'' None constructorField mockDashboard) = []
   \<and> customFields dashboardWithConstructor =
       mockFields @ [\<lparr>f_id = ''1700000000000'', f_name = ''constructor'', f_type = TextField,
                      f_options = None, f_required = True\<rparr>]
   \<and> map_of (fd_customFields vanAFilled) ''constructor'' = None
   \<and> js_get (fd_customFields vanAFilled) ''constructor'' = JObject
   \<and> map_of (VehicleForm_newErrors (customFields dashboardWithConstructor) vanAFilled)
         (customKey ''1700000000000'') = None
   \<and> VehicleForm_validateForm (customFields dashboardWithConstructor) vanAFilled
   \<and> fst (submitVehicleForm ''1700000000001'' ''2/1/2024, 9:00:00 AM'' vanAFilled
            dashboardWithConstructor) = []
   \<and> map v_name (vehicles (snd (submitVehicleForm ''1700000000001'' ''2/1/2024, 9:00:00 AM''
            vanAFilled dashboardWithConstructor)))
       = [''Fleet Van 001'', ''Fleet Van 002'', ''Fleet Truck 003'', ''Van A'']"
proof -
  have low: "toLowerCase ''constructor'' = ''constructor''"
    "toLowerCase ''Vehicle Type'' = ''vehicle type''"
    "toLowerCase ''License Plate'' = ''license plate''"
    "toLowerCase ''Year'' = ''year''"
    "toLowerCase ''Fuel Type'' = ''fuel type''"
    by code_simp+
  have added: "submitFieldForm ''1700000000000'' None constructorField mockDashboard =
      ([], mockDashboard\<lparr>customFields :=
          mockFields @ [\<lparr>f_id = ''1700000000000'', f_name = ''constructor'',
                         f_type = TextField, f_options = None, f_required = True\<rparr>]\<rparr>)"
    by (simp add: constructorField_def mockDashboard_def mockFields_def
        submitFieldForm_def FieldManager_handleSubmit_def FieldManager_validateForm_def
        FieldManager_newErrors_def Object_keys_def trim_def isWhiteSpace_def low
        setCustomFields_def)
  show ?thesis
    unfolding dashboardWithConstructor_def added
    by (simp add: vanAFilled_def vanA_def mockDashboard_def mockFields_def mockVehicles_def
        submitVehicleForm_def VehicleForm_handleSubmit_def VehicleForm_validateForm_def
        VehicleForm_newErrors_def requiredFieldStep_def Object_keys_def js_get_def
        Object_prototype_keys_def trim_def isWhiteSpace_def handleSaveVehicle_def
        or_number_def or_string_def customKey_def)
qed

subsection \<open>Validation of the field form\<close>

lemma FieldManager_validateForm_iff:
  "FieldManager_validateForm flds e fd \<longleftrightarrow>
     trim (ff_name fd) \<noteq> []
     \<and> \<not> list_ex (\<lambda>f. toLowerCase (f_name f) = toLowerCase (ff_name fd)
                        \<and> Some (f_id f) \<noteq> map_option f_id e) flds
     \<and> \<not> (ff_type fd = Dropdown \<and> ff_options fd = [])"
  by (auto simp: FieldManager_validateForm_def FieldManager_newErrors_def Object_keys_def
      Let_def js_set_not_Nil)

lemma FieldManager_saved_field_dropdown:
  assumes "FieldManager_handleSubmit nowId flds e fd = Inr flds'"
    and "dropdownsHaveOptions flds"
  shows "dropdownsHaveOptions flds'"
proof -
  from assms(1) have valid: "FieldManager_validateForm flds e fd"
    by (auto simp: FieldManager_handleSubmit_def split: if_splits)
  then have opt: "\<not> (ff_type fd = Dropdown \<and> ff_options fd = [])"
    by (simp add: FieldManager_validateForm_iff)
  define fieldData where "fieldData =
    \<lparr>f_id = (case e of None \<Rightarrow> nowId | Some x \<Rightarrow> or_string (f_id x) nowId),
     f_name = trim (ff_name fd), f_type = ff_type fd,
     f_options = (if ff_type fd = Dropdown then Some (ff_options fd) else None),
     f_required = ff_required fd\<rparr>"
  have ok: "dropdownHasOption fieldData"
    using opt by (cases "ff_options fd") (auto simp: dropdownHasOption_def fieldData_def)
  show ?thesis
  proof (cases e)
    case None
    with assms(1) valid have "flds' = flds @ [fieldData]"
      by (simp add: FieldManager_handleSubmit_def fieldData_def)
    with assms(2) ok show ?thesis by (simp add: dropdownsHaveOptions_def)
  next
    case (Some x)
    with assms(1) valid
    have "flds' = map (\<lambda>f. if f_id f = f_id x then fieldData else f) flds"
      by (auto simp: FieldManager_handleSubmit_def fieldData_def)
    with assms(2) ok show ?thesis
      by (auto simp: dropdownsHaveOptions_def list_all_iff)
  qed
qed

lemma handleDeleteField_dropdown:
  "dropdownsHaveOptions flds \<Longrightarrow> dropdownsHaveOptions (handleDeleteField flds i)"
  by (simp add: dropdownsHaveOptions_def handleDeleteField_def list_all_iff)

lemma submitFieldForm_vehicles:
  "vehicles (snd (submitFieldForm nowId e fd st)) = vehicles st"
  by (simp add: submitFieldForm_def setCustomFields_def split: sum.splits)

lemma submitFieldForm_keeps_dropdowns:
  assumes "dropdownsHaveOptions (customFields st)"
  shows "dropdownsHaveOptions (customFields (snd (submitFieldForm nowId e fd st)))"
proof (cases "FieldManager_handleSubmit nowId (customFields st) e fd")
  case (Inl errs)
  with assms show ?thesis by (simp add: submitFieldForm_def)
next
  case (Inr flds')
  with assms FieldManager_saved_field_dropdown [OF Inr] show ?thesis
    by (simp add: submitFieldForm_def setCustomFields_def)
qed

subsection \<open>Saving a vehicle\<close>

lemma handleSaveVehicle_mileages:
  assumes "mileagesNonNegative (vehicles st)" and "0 \<le> fd_mileage fd"
  shows "mileagesNonNegative (vehicles (handleSaveVehicle nowId nowLocale fd st))"
proof (cases "editingVehicle st")
  case None
  with assms show ?thesis
    by (simp add: handleSaveVehicle_def mileagesNonNegative_def or_number_def)
next
  case (Some ev)
  with assms show ?thesis
    by (auto simp: handleSaveVehicle_def mileagesNonNegative_def list_all_iff)
qed

lemma submitVehicleForm_keeps_mileages:
  assumes "mileagesNonNegative (vehicles st)"
  shows "mileagesNonNegative (vehicles (snd (submitVehicleForm nowId nowLocale fd st)))"
proof (cases "VehicleForm_validateForm (customFields st) fd")
  case True
  then have "0 \<le> fd_mileage fd" by (simp add: VehicleForm_validateForm_iff)
  with assms True show ?thesis
    by (simp add: submitVehicleForm_def VehicleForm_handleSubmit_def handleSaveVehicle_mileages)
next
  case False
  with assms show ?thesis
    by (simp add: submitVehicleForm_def VehicleForm_handleSubmit_def)
qed

lemma submitVehicleForm_customFields:
  "customFields (snd (submitVehicleForm nowId nowLocale fd st)) = customFields st"
  by (simp add: submitVehicleForm_def VehicleForm_handleSubmit_def handleSaveVehicle_def Let_def)

subsection \<open>Invariants of the dashboard\<close>

lemma mileagesNonNegative_mock: "mileagesNonNegative mockVehicles"
  by (simp add: mileagesNonNegative_def mockVehicles_def)

lemma dropdownsHaveOptions_mock: "dropdownsHaveOptions mockFields"
  by (simp add: dropdownsHaveOptions_def dropdownHasOption_def mockFields_def)

text \<open>
  In every state of the dashboard no stored mileage is negative and every stored dropdown
  field has an option: by induction on the events that lead to the state.
\<close>

lemma reachable_invariants:
  "reachable st \<Longrightarrow>
   mileagesNonNegative (vehicles st) \<and> dropdownsHaveOptions (customFields st)"
proof (induction rule: reachable.induct)
  case initial
  show ?case
    by (simp add: mockDashboard_def mileagesNonNegative_mock dropdownsHaveOptions_mock)
next
  case (addVehicle st)
  then show ?case by (simp add: handleAddVehicle_def)
next
  case (editVehicle st v)
  then show ?case by (simp add: handleEditVehicle_def)
next
  case (cancelVehicle st)
  then show ?case by (simp add: onCancel_def)
next
  case (saveVehicle st nowId nowLocale formData)
  then show ?case
    by (simp add: submitVehicleForm_keeps_mileages submitVehicleForm_customFields)
next
  case (deleteVehicle st v)
  then show ?case
    by (simp add: onDeleteVehicle_def mileagesNonNegative_def list_all_iff)
next
  case (saveField st nowId editingField fieldForm)
  then show ?case
    by (simp add: submitFieldForm_keeps_dropdowns submitFieldForm_vehicles)
next
  case (deleteField st f)
  then show ?case
    by (simp add: removeField_def setCustomFields_def handleDeleteField_dropdown)
next
  case (updateReminders st rs)
  then show ?case by (simp add: setReminders_def)
qed

text \<open>
  C6: submitting the vehicle form with a negative mileage fails validation with the
  mileage error and leaves the dashboard as it is; when the mileages of the stored
  vehicles are non-negative, they are non-negative after a successful submission; and in
  every state of the dashboard, before and after a submission, they are non-negative.
\<close>

theorem submitVehicleForm_mileage:
  "(fd_mileage fd < 0 \<longrightarrow>
       \<not> VehicleForm_validateForm (customFields st) fd
       \<and> map_of (fst (submitVehicleForm nowId nowLocale fd st)) ''mileage''
           = Some ''Mileage cannot be negative''
       \<and> snd (submitVehicleForm nowId nowLocale fd st) = st)
   \<and> (mileagesNonNegative (vehicles st) \<and> fst (submitVehicleForm nowId nowLocale fd st) = [] \<longrightarrow>
       mileagesNonNegative (vehicles (snd (submitVehicleForm nowId nowLocale fd st))))
   \<and> (reachable st \<longrightarrow>
       mileagesNonNegative (vehicles st)
       \<and> mileagesNonNegative (vehicles (snd (submitVehicleForm nowId nowLocale fd st))))"
proof (intro conjI impI)
  assume neg: "fd_mileage fd < 0"
  then show invalid: "\<not> VehicleForm_validateForm (customFields st) fd"
    by (simp add: VehicleForm_validateForm_iff)
  from neg invalid
  show "map_of (fst (submitVehicleForm nowId nowLocale fd st)) ''mileage''
           = Some ''Mileage cannot be negative''"
    by (simp add: submitVehicleForm_def VehicleForm_handleSubmit_def VehicleForm_mileage_error)
  from invalid show "snd (submitVehicleForm nowId nowLocale fd st) = st"
    by (simp add: submitVehicleForm_def VehicleForm_handleSubmit_def)
next
  assume "mileagesNonNegative (vehicles st) \<and> fst (submitVehicleForm nowId nowLocale fd st) = []"
  then show "mileagesNonNegative (vehicles (snd (submitVehicleForm nowId nowLocale fd st)))"
    by (simp add: submitVehicleForm_keeps_mileages)
next
  assume r: "reachable st"
  then show "mileagesNonNegative (vehicles st)"
    by (simp add: reachable_invariants)
  from r show "mileagesNonNegative (vehicles (snd (submitVehicleForm nowId nowLocale fd st)))"
    by (simp add: reachable_invariants submitVehicleForm_keeps_mileages)
qed

text \<open>
  On the mock dashboard: mileage -5 is rejected and nothing changes; mileage 100 is saved as
  a fourth vehicle.
\<close>

theorem submitVehicleForm_mileage_witness:
  "fd_mileage (vanAFilled\<lparr>fd_mileage := - 5\<rparr>) < 0
   \<and> fst (submitVehicleForm ''1700000000000'' ''2/1/2024, 9:00:00 AM''
            (vanAFilled\<lparr>fd_mileage := - 5\<rparr>) mockDashboard)
       = [(''mileage'', ''Mileage cannot be negative'')]
   \<and> snd (submitVehicleForm ''1700000000000'' ''2/1/2024, 9:00:00 AM''
            (vanAFilled\<lparr>fd_mileage := - 5\<rparr>) mockDashboard) = mockDashboard
   \<and> reachable mockDashboard
   \<and> mileagesNonNegative (vehicles mockDashboard)
   \<and> fst (submitVehicleForm ''1700000000000'' ''2/1/2024, 9:00:00 AM'' vanAFilled mockDashboard) = []
   \<and> map v_mileage (vehicles (snd (submitVehicleForm ''1700000000000'' ''2/1/2024, 9:00:00 AM''
            vanAFilled mockDashboard))) = [45670, 38920, 67340, 100]
   \<and> mileagesNonNegative (vehicles (snd (submitVehicleForm ''1700000000000''
            ''2/1/2024, 9:00:00 AM'' vanAFilled mockDashboard)))"
  using submitVehicleForm_mileage [of "vanAFilled\<lparr>fd_mileage := - 5\<rparr>" mockDashboard
      "''1700000000000''" "''2/1/2024, 9:00:00 AM''"]
    submitVehicleForm_mileage [of vanAFilled mockDashboard
      "''1700000000000''" "''2/1/2024, 9:00:00 AM''"]
    reachable.initial
  by (simp add: vanAFilled_def vanA_def mockDashboard_def mockFields_def mockVehicles_def
      submitVehicleForm_def VehicleForm_handleSubmit_def VehicleForm_validateForm_def
      VehicleForm_newErrors_def requiredFieldStep_def Object_keys_def js_get_def
      Object_prototype_keys_def trim_def isWhiteSpace_def handleSaveVehicle_def or_number_def
      or_string_def mileagesNonNegative_def customKey_def)

subsection \<open>Saving a field\<close>

text \<open>
  C5: submitting the field form for a dropdown without options fails with EmptyOptions and
  leaves the dashboard as it is; when every stored dropdown field has an option, the same
  holds after a successful submission; and in every state of the dashboard, before and
  after a submission, every stored dropdown field has an option.
\<close>

theorem submitFieldForm_dropdown_options:
  "(ff_type fd = Dropdown \<and> ff_options fd = [] \<longrightarrow>
       EmptyOptions (fst (submitFieldForm nowId e fd st))
       \<and> snd (submitFieldForm nowId e fd st) = st)
   \<and> (dropdownsHaveOptions (customFields st) \<and> fst (submitFieldForm nowId e fd st) = [] \<longrightarrow>
       dropdownsHaveOptions (customFields (snd (submitFieldForm nowId e fd st))))
   \<and> (reachable st \<longrightarrow>
       dropdownsHaveOptions (customFields st)
       \<and> dropdownsHaveOptions (customFields (snd (submitFieldForm nowId e fd st))))"
proof (intro conjI impI)
  assume empty: "ff_type fd = Dropdown \<and> ff_options fd = []"
  then have invalid: "\<not> FieldManager_validateForm (customFields st) e fd"
    by (simp add: FieldManager_validateForm_iff)
  from empty have "EmptyOptions (FieldManager_newErrors (customFields st) e fd)"
    by (simp add: EmptyOptions_def FieldManager_newErrors_def Let_def map_of_js_set)
  with invalid show "EmptyOptions (fst (submitFieldForm nowId e fd st))"
    by (simp add: submitFieldForm_def FieldManager_handleSubmit_def)
  from invalid show "snd (submitFieldForm nowId e fd st) = st"
    by (simp add: submitFieldForm_def FieldManager_handleSubmit_def)
next
  assume "dropdownsHaveOptions (customFields st) \<and> fst (submitFieldForm nowId e fd st) = []"
  then show "dropdownsHaveOptions (customFields (snd (submitFieldForm nowId e fd st)))"
    by (simp add: submitFieldForm_keeps_dropdowns)
next
  assume r: "reachable st"
  then show "dropdownsHaveOptions (customFields st)"
    by (simp add: reachable_invariants)
  from r show "dropdownsHaveOptions (customFields (snd (submitFieldForm nowId e fd st)))"
    by (simp add: reachable_invariants submitFieldForm_keeps_dropdowns)
qed

text \<open>
  On the mock dashboard: the dropdown Colour without options is rejected and nothing
  changes; with the option Red it is saved.
\<close>

theorem submitFieldForm_dropdown_options_witness:
  "ff_type emptyDropdown = Dropdown \<and> ff_options emptyDropdown = []
   \<and> fst (submitFieldForm ''1700000000000'' None emptyDropdown mockDashboard)
       = [(''options'', ''At least one option is required for dropdown fields'')]
   \<and> snd (submitFieldForm ''1700000000000'' None emptyDropdown mockDashboard) = mockDashboard
   \<and> reachable mockDashboard
   \<and> dropdownsHaveOptions (customFields mockDashboard)
   \<and> fst (submitFieldForm ''1700000000000'' None
        (emptyDropdown\<lparr>ff_options := [\<lparr>o_value = ''Red'', o_color = Some ''#ff0000''\<rparr>]\<rparr>)
        mockDashboard) = []
   \<and> dropdownsHaveOptions (customFields (snd (submitFieldForm ''1700000000000'' None
        (emptyDropdown\<lparr>ff_options := [\<lparr>o_value = ''Red'', o_color = Some ''#ff0000''\<rparr>]\<rparr>)
        mockDashboard)))"
proof -
  have low: "toLowerCase ''Colour'' = ''colour''"
    "toLowerCase ''Vehicle Type'' = ''vehicle type''"
    "toLowerCase ''License Plate'' = ''license plate''"
    "toLowerCase ''Year'' = ''year''"
    "toLowerCase ''Fuel Type'' = ''fuel type''"
    by code_simp+
  show ?thesis
    using submitFieldForm_dropdown_options [of emptyDropdown "''1700000000000''" None mockDashboard]
      submitFieldForm_dropdown_options [of
        "emptyDropdown\<lparr>ff_options := [\<lparr>o_value = ''Red'', o_color = Some ''#ff0000''\<rparr>]\<rparr>"
        "''1700000000000''" None mockDashboard]
      reachable.initial
    by (simp add: emptyDropdown_def mockDashboard_def mockFields_def plainOption_def
        submitFieldForm_def FieldManager_handleSubmit_def FieldManager_validateForm_def
        FieldManager_newErrors_def Object_keys_def trim_def isWhiteSpace_def low
        dropdownsHaveOptions_def dropdownHasOption_def setCustomFields_def)
qed

subsection \<open>Names of the fields\<close>

text \<open>
  What the field form does for C4: a name that is not blank and equals, up to case, the
  name of another field is rejected with DuplicateName, and the dashboard is left as it
  is. The comparison reads the name as typed.
\<close>

lemma submitFieldForm_duplicate_rejected:
  assumes "trim (ff_name fd) \<noteq> []" and "f \<in> set (customFields st)"
    and "toLowerCase (f_name f) = toLowerCase (ff_name fd)"
    and "Some (f_id f) \<noteq> map_option f_id e"
  shows "DuplicateName (fst (submitFieldForm nowId e fd st))
         \<and> snd (submitFieldForm nowId e fd st) = st"
proof -
  from assms(2-4)
  have ex: "list_ex (\<lambda>f. toLowerCase (f_name f) = toLowerCase (ff_name fd)
                        \<and> Some (f_id f) \<noteq> map_option f_id e) (customFields st)"
    unfolding list_ex_iff by blast
  then have invalid: "\<not> FieldManager_validateForm (customFields st) e fd"
    by (simp add: FieldManager_validateForm_iff)
  from assms(1) ex have "DuplicateName (FieldManager_newErrors (customFields st) e fd)"
    by (simp add: DuplicateName_def FieldManager_newErrors_def Let_def map_of_js_set)
  with invalid show ?thesis
    by (simp add: submitFieldForm_def FieldManager_handleSubmit_def)
qed

text \<open>
  The scenario of the specification: adding a field named like the mock field License
  Plate, in lower case, is rejected with DuplicateName.
\<close>

lemma submitFieldForm_scenario_rejected:
  "DuplicateName (fst (submitFieldForm ''1700000000000'' None
      \<lparr>ff_name = ''license plate'', ff_type = TextField, ff_options = [], ff_required = False\<rparr>
      mockDashboard))"
proof -
  have low: "toLowerCase ''License Plate'' = toLowerCase ''license plate''"
    by code_simp
  have nonblank: "trim ''license plate'' \<noteq> []"
    by (simp add: trim_def isWhiteSpace_def)
  show ?thesis
    using submitFieldForm_duplicate_rejected [of
        "\<lparr>ff_name = ''license plate'', ff_type = TextField, ff_options = [], ff_required = False\<rparr>"
        "mockFields ! 1" mockDashboard None "''1700000000000''"] low nonblank
    by (simp add: mockDashboard_def mockFields_def)
qed

text \<open>
  Adding a field whose name is typed without surrounding white space keeps the names
  unique up to case.
\<close>

lemma submitFieldForm_add_unique_when_trimmed:
  assumes "uniqueFieldNames (customFields st)" and "trim (ff_name fd) = ff_name fd"
    and "fst (submitFieldForm nowId None fd st) = []"
  shows "uniqueFieldNames (customFields (snd (submitFieldForm nowId None fd st)))"
proof (cases "FieldManager_validateForm (customFields st) None fd")
  case False
  then have "fst (submitFieldForm nowId None fd st) = FieldManager_newErrors (customFields st) None fd"
    by (simp add: submitFieldForm_def FieldManager_handleSubmit_def)
  with False assms(3) show ?thesis
    by (simp add: FieldManager_validateForm_def Object_keys_def)
next
  case True
  then have fresh: "\<forall>f \<in> set (customFields st). toLowerCase (f_name f) \<noteq> toLowerCase (ff_name fd)"
    by (auto simp: FieldManager_validateForm_iff list_ex_iff)
  from True assms(1,2) fresh show ?thesis
    by (auto simp: submitFieldForm_def FieldManager_handleSubmit_def setCustomFields_def
        uniqueFieldNames_def)
qed

text \<open>
  C4 fails on the code: \<open>validateForm\<close> compares the name as typed, \<open>handleSubmit\<close>
  stores the trimmed name. On the mock dashboard, whose field names are unique up to case,
  adding a field with the name of License Plate typed in lower case after a space passes
  validation, and the saved schema holds both License Plate and license plate.
\<close>

theorem submitFieldForm_padded_duplicate:
  "uniqueFieldNames (customFields mockDashboard)
   \<and> fst (submitFieldForm ''1700000000000'' None paddedLicensePlate mockDashboard) = []
   \<and> map f_name (customFields
        (snd (submitFieldForm ''1700000000000'' None paddedLicensePlate mockDashboard)))
       = [''Vehicle Type'', ''License Plate'', ''Year'', ''Fuel Type'', ''license plate'']
   \<and> toLowerCase ''License Plate'' = toLowerCase ''license plate''
   \<and> \<not> uniqueFieldNames (customFields
        (snd (submitFieldForm ''1700000000000'' None paddedLicensePlate mockDashboard)))"
proof -
  have low: "toLowerCase '' license plate'' = '' license plate''"
    "toLowerCase ''license plate'' = ''license plate''"
    "toLowerCase ''Vehicle Type'' = ''vehicle type''"
    "toLowerCase ''License Plate'' = ''license plate''"
    "toLowerCase ''Year'' = ''year''"
    "toLowerCase ''Fuel Type'' = ''fuel type''"
    by code_simp+
  show ?thesis
    by (simp add: paddedLicensePlate_def mockDashboard_def mockFields_def
        submitFieldForm_def FieldManager_handleSubmit_def FieldManager_validateForm_def
        FieldManager_newErrors_def Object_keys_def trim_def isWhiteSpace_def low
        uniqueFieldNames_def setCustomFields_def)
qed

end
